theory Spec2Isabelle
  imports Complex_Main
begin

section \<open>Floating-point values of the score tensors\<close>

text \<open>
  The validator keeps its scores in a \<^verbatim>\<open>torch.float32\<close> tensor. A tensor element is a
  finite value, one of the two infinities, or NaN. Finite values are rationals; the
  sign of zero and NaN payloads are not distinguished.

  Every arithmetic operation computes the exact result and rounds it. The rounding is
  a parameter of the model: \<open>IEEE\<close> rounds to the nearest value of the format, ties to
  even, overflowing to an infinity (binary32 for tensor elements, binary64 for Python
  floats); \<open>Exact\<close> does not round at all and is the idealisation under which
  "within floating tolerance" statements are read.
\<close>

datatype fp = Fin rat | PInf | NInf | NaN

datatype arith = Exact | IEEE

datatype format = Binary32 | Binary64

text \<open>Number of binary digits of a positive integer.\<close>

function bitlen :: "int \<Rightarrow> int" where
  "bitlen n = (if n \<le> 0 then 0 else 1 + bitlen (n div 2))"
  by pat_completeness auto
termination
  by (relation "measure nat") auto

declare bitlen.simps [simp del]

definition pow2 :: "int \<Rightarrow> rat" where
  "pow2 k = (if 0 \<le> k then 2 ^ nat k else 1 / 2 ^ nat (- k))"

text \<open>For \<open>0 < a\<close>: the exponent \<open>e\<close> with \<open>2 ^ e \<le> a < 2 ^ (e + 1)\<close>.\<close>

definition ilog2 :: "rat \<Rightarrow> int" where
  "ilog2 a = (if 1 \<le> a then bitlen \<lfloor>a\<rfloor> - 1
              else - bitlen (\<lceil>1 / a\<rceil> - 1))"

text \<open>Round to the nearest integer, ties to even.\<close>

definition rne :: "rat \<Rightarrow> int" where
  "rne x = (let f = \<lfloor>x\<rfloor>; d = x - of_int f
            in if d < 1 / 2 then f else if 1 / 2 < d then f + 1
               else if even f then f else f + 1)"

text \<open>
  Rounding to a binary format with \<open>p\<close> significant bits and exponents
  \<open>emin .. emax\<close>; below \<open>2 ^ emin\<close> the spacing stays that of the subnormal numbers.
\<close>

definition round_nearest :: "nat \<Rightarrow> int \<Rightarrow> int \<Rightarrow> rat \<Rightarrow> fp" where
  "round_nearest p emin emax q =
     (if q = 0 then Fin 0
      else let a = \<bar>q\<bar>;
               e = max (ilog2 a) emin;
               ulp = pow2 (e - (int p - 1));
               m = rne (a / ulp)
           in if emax < e \<or> (e = emax \<and> m = 2 ^ p) then (if 0 < q then PInf else NInf)
              else Fin (if 0 < q then of_int m * ulp else - (of_int m * ulp)))"

fun rnd :: "arith \<Rightarrow> format \<Rightarrow> rat \<Rightarrow> fp" where
  "rnd Exact fmt q = Fin q"
| "rnd IEEE Binary32 q = round_nearest 24 (- 126) 127 q"
| "rnd IEEE Binary64 q = round_nearest 53 (- 1022) 1023 q"

definition isnan :: "fp \<Rightarrow> bool" where
  "isnan x = (x = NaN)"


fun fsign :: "fp \<Rightarrow> int" where
  "fsign (Fin a) = (if 0 < a then 1 else if a < 0 then - 1 else 0)"
| "fsign PInf = 1"
| "fsign NInf = - 1"
| "fsign NaN = 0"

text \<open>Products, sums and quotients of binary32 tensor elements.\<close>

fun fmul :: "arith \<Rightarrow> fp \<Rightarrow> fp \<Rightarrow> fp" where
  "fmul ar (Fin a) (Fin b) = rnd ar Binary32 (a * b)"
| "fmul ar NaN y = NaN"
| "fmul ar x NaN = NaN"
| "fmul ar x y =
     (let s = fsign x * fsign y in if s = 0 then NaN else if 0 < s then PInf else NInf)"

fun fadd :: "arith \<Rightarrow> fp \<Rightarrow> fp \<Rightarrow> fp" where
  "fadd ar (Fin a) (Fin b) = rnd ar Binary32 (a + b)"
| "fadd ar NaN y = NaN"
| "fadd ar x NaN = NaN"
| "fadd ar PInf NInf = NaN"
| "fadd ar NInf PInf = NaN"
| "fadd ar PInf y = PInf"
| "fadd ar x PInf = PInf"
| "fadd ar NInf y = NInf"
| "fadd ar x NInf = NInf"

text \<open>
  Division. A zero divisor is read as \<open>+0\<close>; the normalisation below never divides
  by zero, its divisor being at least \<open>eps\<close>.
\<close>

fun fdiv :: "arith \<Rightarrow> fp \<Rightarrow> fp \<Rightarrow> fp" where
  "fdiv ar (Fin a) (Fin b) =
     (if b = 0 then (if a = 0 then NaN else if 0 < a then PInf else NInf)
      else rnd ar Binary32 (a / b))"
| "fdiv ar NaN y = NaN"
| "fdiv ar x NaN = NaN"
| "fdiv ar (Fin a) y = Fin 0"
| "fdiv ar x (Fin b) = (if (x = PInf) = (0 \<le> b) then PInf else NInf)"
| "fdiv ar x y = NaN"

fun fabs :: "fp \<Rightarrow> fp" where
  "fabs (Fin a) = Fin \<bar>a\<bar>"
| "fabs PInf = PInf"
| "fabs NInf = PInf"
| "fabs NaN = NaN"

fun fless :: "fp \<Rightarrow> fp \<Rightarrow> bool" where
  "fless (Fin a) (Fin b) = (a < b)"
| "fless NaN y = False"
| "fless x NaN = False"
| "fless PInf y = False"
| "fless x PInf = True"
| "fless NInf y = (y \<noteq> NInf)"
| "fless x NInf = False"

text \<open>A Python float (binary64) converted to an element of a binary32 tensor.\<close>

fun to_f32 :: "arith \<Rightarrow> fp \<Rightarrow> fp" where
  "to_f32 ar (Fin q) = rnd ar Binary32 q"
| "to_f32 ar x = x"

text \<open>Subtraction of two finite Python floats.\<close>

definition py_sub :: "arith \<Rightarrow> rat \<Rightarrow> rat \<Rightarrow> fp" where
  "py_sub ar a b = rnd ar Binary64 (a - b)"

text \<open>The largest finite binary32 value, \<^verbatim>\<open>torch.finfo(torch.float32).max\<close>.\<close>

definition max32 :: rat where
  "max32 = (2 ^ 24 - 1) * 2 ^ 104"

text \<open>
  \<^verbatim>\<open>torch.nan_to_num(x, 0)\<close>, elementwise: NaN becomes 0, and the infinities become the
  largest and the smallest finite value of the type.
\<close>

fun nan_to_num :: "fp \<Rightarrow> fp" where
  "nan_to_num NaN = Fin 0"
| "nan_to_num PInf = Fin max32"
| "nan_to_num NInf = Fin (- max32)"
| "nan_to_num (Fin q) = Fin q"

section \<open>Validator state\<close>

datatype level = Debug | Info | Warning | Error | Success

datatype exc = KeyboardInterrupt | IndexError | RuntimeError | FileNotFoundError | OtherError string

text \<open>What a Python call yields: the value it returns, or the exception it raises.\<close>

datatype pyval = PyNone | PyBool bool

datatype outcome = Returns pyval | Raises exc

text \<open>
  One entry of the registry: the participant's hotkey and the endpoint data of its axon.
  The hotkeys of a metagraph are the hotkeys of its axons.
\<close>

record axon =
  axon_hotkey :: string
  axon_endpoint :: string

record config =
  moving_average_alpha :: rat
  num_concurrent_forwards :: nat
  organic :: bool
  wandb_off :: bool
  full_path :: string

record validator =
  step :: int
  scores :: "fp list"
  hotkeys :: "string list"
  last_query_block :: int
  metagraph :: "axon list"
  should_exit :: bool
  wandb_run_log_count :: int
  logs :: "(level \<times> string) list"

definition log_msg :: "level \<Rightarrow> string \<Rightarrow> validator \<Rightarrow> validator" where
  "log_msg l m st = st\<lparr>logs := logs st @ [(l, m)]\<rparr>"

definition metagraph_hotkeys :: "axon list \<Rightarrow> string list" where
  "metagraph_hotkeys axons = map axon_hotkey axons"

section \<open>update_scores\<close>

text \<open>
  \<^verbatim>\<open>self.scores.scatter(0, index, src)\<close>: a copy of the scores in which position
  \<open>index[j]\<close> holds \<open>src[j]\<close>. It raises when an index is outside the tensor or when
  there are more indices than source values; source values beyond the indices are not
  used. Writes happen in index order.
\<close>

fun scatter_loop :: "fp list \<Rightarrow> (int \<times> fp) list \<Rightarrow> fp list" where
  "scatter_loop self [] = self"
| "scatter_loop self ((i, v) # ps) = scatter_loop (self[nat i := v]) ps"

definition scatter :: "fp list \<Rightarrow> int list \<Rightarrow> fp list \<Rightarrow> exc + fp list" where
  "scatter self index src =
     (if length src < length index then Inl RuntimeError
      else if list_ex (\<lambda>i. i < 0 \<or> int (length self) \<le> i) index then Inl RuntimeError
      else Inr (scatter_loop self (zip index src)))"

text \<open>
  One element of \<^verbatim>\<open>alpha * scattered_rewards + (1 - alpha) * self.scores\<close>: \<open>alpha\<close> and
  \<open>1 - alpha\<close> are Python floats, converted to binary32 when they multiply a tensor.
\<close>

definition ema :: "arith \<Rightarrow> rat \<Rightarrow> fp \<Rightarrow> fp \<Rightarrow> fp" where
  "ema ar alpha r s =
     fadd ar (fmul ar (to_f32 ar (Fin alpha)) r) (fmul ar (to_f32 ar (py_sub ar 1 alpha)) s)"

definition update_scores ::
  "arith \<Rightarrow> config \<Rightarrow> fp list \<Rightarrow> int list \<Rightarrow> validator \<Rightarrow> validator \<times> outcome" where
  "update_scores ar cfg rewards uids st =
     (let (st1, rewards1) =
            (if list_ex isnan rewards
             then (log_msg Warning ''NaN values detected in rewards'' st, map nan_to_num rewards)
             else (st, rewards))
      in case scatter (scores st1) uids rewards1 of
           Inl e \<Rightarrow> (st1, Raises e)
         | Inr scattered_rewards \<Rightarrow>
             (let st2 = log_msg Debug ''Scattered rewards'' st1;
                  alpha = moving_average_alpha cfg;
                  st3 = st2\<lparr>scores := map2 (ema ar alpha) scattered_rewards (scores st2)\<rparr>
              in (log_msg Debug ''Updated moving avg scores'' st3, Returns PyNone)))"

section \<open>set_weights\<close>

text \<open>
  \<^verbatim>\<open>torch.nn.functional.normalize(scores, p=1, dim=0)\<close>: every element divided by
  \<open>max (sum of the absolute values) eps\<close> with \<open>eps = 1e-12\<close>; the maximum of NaN and
  \<open>eps\<close> is NaN.
\<close>

definition fsum :: "arith \<Rightarrow> fp list \<Rightarrow> fp" where
  "fsum ar xs = foldl (fadd ar) (Fin 0) xs"

definition norm1 :: "arith \<Rightarrow> fp list \<Rightarrow> fp" where
  "norm1 ar xs = fsum ar (map fabs xs)"


definition eps :: "arith \<Rightarrow> fp" where
  "eps ar = to_f32 ar (rnd ar Binary64 (1 / 10 ^ 12))"

definition clamp_min :: "fp \<Rightarrow> fp \<Rightarrow> fp" where
  "clamp_min x lo = (if isnan x then NaN else if fless x lo then lo else x)"

definition normalize_p1 :: "arith \<Rightarrow> fp list \<Rightarrow> fp list" where
  "normalize_p1 ar xs = (let denom = clamp_min (norm1 ar xs) (eps ar) in map (\<lambda>x. fdiv ar x denom) xs)"

text \<open>
  \<open>emit\<close> stands for the ledger adapter behind lines 317 to 347 (processing,
  quantisation and submission of the weights, with their debug output): it takes the
  raw weights and reports whether the submission succeeded.
\<close>

definition set_weights :: "arith \<Rightarrow> (fp list \<Rightarrow> bool) \<Rightarrow> validator \<Rightarrow> validator \<times> outcome" where
  "set_weights ar emit st =
     (let st1 = (if list_ex isnan (scores st)
                 then log_msg Warning ''Scores contain NaN values'' st else st);
          raw_weights = normalize_p1 ar (scores st1);
          st2 = log_msg Debug ''raw_weight_uids'' (log_msg Debug ''raw_weights'' st1)
      in if emit raw_weights
         then (log_msg Info ''set_weights on chain successfully!'' st2, Returns PyNone)
         else (log_msg Error ''set_weights failed'' st2, Returns PyNone))"

section \<open>resync_metagraph\<close>

text \<open>
  The loop \<^verbatim>\<open>for uid, hotkey in enumerate(self.hotkeys)\<close>. Reading
  \<^verbatim>\<open>self.metagraph.hotkeys[uid]\<close> or writing \<^verbatim>\<open>self.scores[uid]\<close> out of range raises
  IndexError; what was zeroed before stays zeroed.
\<close>

fun zero_replaced :: "nat \<Rightarrow> string list \<Rightarrow> string list \<Rightarrow> fp list \<Rightarrow> fp list \<times> exc option" where
  "zero_replaced uid [] new sc = (sc, None)"
| "zero_replaced uid (hotkey # hs) new sc =
     (if length new \<le> uid then (sc, Some IndexError)
      else if hotkey \<noteq> new ! uid
           then (if length sc \<le> uid then (sc, Some IndexError)
                 else zero_replaced (Suc uid) hs new (sc[uid := Fin 0]))
           else zero_replaced (Suc uid) hs new sc)"

text \<open>
  \<open>synced\<close> is the registry that \<^verbatim>\<open>self.metagraph.sync\<close> fetches; \<^verbatim>\<open>metagraph.n\<close> is its
  length.
\<close>

definition resync_metagraph :: "axon list \<Rightarrow> validator \<Rightarrow> validator \<times> outcome" where
  "resync_metagraph synced st =
     (let st0 = log_msg Info ''resync_metagraph()'' st;
          previous_metagraph = metagraph st0;
          st1 = st0\<lparr>metagraph := synced\<rparr>
      in if previous_metagraph = metagraph st1 then (st1, Returns PyNone)
         else
           (let st2 = log_msg Info ''Metagraph updated, re-syncing hotkeys, dendrite pool and moving averages'' st1;
                new_hotkeys = metagraph_hotkeys (metagraph st2);
                (sc, raised) = zero_replaced 0 (hotkeys st2) new_hotkeys (scores st2);
                st3 = st2\<lparr>scores := sc\<rparr>
            in case raised of
                 Some e \<Rightarrow> (st3, Raises e)
               | None \<Rightarrow>
                   (let st4 =
                          (if length (hotkeys st3) < length new_hotkeys
                           then (let new_moving_average = replicate (length (metagraph st3)) (Fin 0);
                                     min_len = min (length (hotkeys st3)) (length (scores st3))
                                 in st3\<lparr>scores := take min_len (scores st3)
                                                      @ drop min_len new_moving_average\<rparr>)
                           else st3)
                    in (st4\<lparr>hotkeys := new_hotkeys\<rparr>, Returns PyNone))))"

section \<open>save_state and load_state\<close>






section \<open>Probe dispatch\<close>

text \<open>
  A probe sub-cycle (\<^verbatim>\<open>self.forward()\<close>, defined by the concrete validator) is a step on
  the validator state that returns or raises. \<^verbatim>\<open>asyncio.gather\<close> without
  \<^verbatim>\<open>return_exceptions\<close> hands the first exception raised by a sub-cycle to its awaiter
  at once. The sub-cycles are listed in the order in which they finish; what a
  sub-cycle still pending at that moment does later is outside the call.
\<close>

type_synonym subcycle = "validator \<Rightarrow> validator \<times> outcome"

fun gather :: "subcycle list \<Rightarrow> validator \<Rightarrow> validator \<times> outcome" where
  "gather [] st = (st, Returns PyNone)"
| "gather (f # fs) st =
     (case f st of
        (st1, Raises e) \<Rightarrow> (st1, Raises e)
      | (st1, Returns v) \<Rightarrow> gather fs st1)"

definition concurrent_forward :: "config \<Rightarrow> (nat \<Rightarrow> subcycle) \<Rightarrow> validator \<Rightarrow> validator \<times> outcome" where
  "concurrent_forward cfg forward st = gather (map forward [0..<num_concurrent_forwards cfg]) st"


section \<open>The scheduler loop\<close>

text \<open>
  What one pass of the loop observes of its collaborators: the block height, the
  sub-cycles, \<^verbatim>\<open>self.sync\<close> (defined by the base neuron), the telemetry calls, and
  whether another thread has asked the loop to stop.
\<close>

record tick_env =
  current_block :: int
  forward :: "nat \<Rightarrow> subcycle"
  sync :: "validator \<Rightarrow> validator \<times> outcome"
  wandb_log :: outcome
  should_reinit_wandb :: bool
  reinit_wandb :: outcome
  stop_requested :: bool

datatype pass = Continue | Break | Raised exc

text \<open>Lines 180 to 218: telemetry. Its own failures are logged, not raised.\<close>

definition telemetry :: "config \<Rightarrow> tick_env \<Rightarrow> validator \<Rightarrow> validator \<times> outcome" where
  "telemetry cfg env st =
     (if wandb_off cfg then (st, Returns PyNone)
      else
        (let st1 = log_msg Debug ''Logging info to wandb'' st;
             logged =
               (case wandb_log env of
                  Raises KeyboardInterrupt \<Rightarrow> (st1, Raises KeyboardInterrupt)
                | Raises e \<Rightarrow>
                    (log_msg Error ''wandb error'' (log_msg Error ''Failed to log info into wandb!'' st1),
                     Returns PyNone)
                | Returns v \<Rightarrow>
                    (log_msg Info ''wandb log count''
                       (st1\<lparr>wandb_run_log_count := wandb_run_log_count st1 + 1\<rparr>), Returns PyNone))
         in case logged of
              (st2, Raises e) \<Rightarrow> (st2, Raises e)
            | (st2, Returns v) \<Rightarrow>
                (if should_reinit_wandb env
                 then (case reinit_wandb env of
                         Raises KeyboardInterrupt \<Rightarrow> (st2, Raises KeyboardInterrupt)
                       | Raises e \<Rightarrow>
                           (log_msg Error ''wandb error'' (log_msg Error ''Failed reinit wandb run!'' st2),
                            Returns PyNone)
                       | Returns w \<Rightarrow> (st2\<lparr>wandb_run_log_count := 0\<rparr>, Returns PyNone))
                 else (st2, Returns PyNone))))"

text \<open>Lines 220 to 224: the stop check and the step counter.\<close>

definition end_of_pass :: "tick_env \<Rightarrow> validator \<Rightarrow> validator \<times> pass" where
  "end_of_pass env st =
     (let st1 = st\<lparr>should_exit := should_exit st \<or> stop_requested env\<rparr>
      in if should_exit st1 then (st1, Break)
         else (st1\<lparr>step := step st1 + 1\<rparr>, Continue))"

text \<open>
  One pass of \<^verbatim>\<open>while True\<close> (lines 165 to 224). \<open>QUERY_RATE\<close> is the constant of
  \<^verbatim>\<open>sturdy.constants\<close>.
\<close>

definition tick :: "int \<Rightarrow> config \<Rightarrow> tick_env \<Rightarrow> validator \<Rightarrow> validator \<times> pass" where
  "tick QUERY_RATE cfg env st =
     (if current_block env - last_query_block st > QUERY_RATE
      then
        (let st1 = log_msg Info ''step block'' st
         in case concurrent_forward cfg (forward env) st1 of
              (st2, Raises e) \<Rightarrow> (st2, Raised e)
            | (st2, Returns v) \<Rightarrow>
                (let st3 = st2\<lparr>last_query_block := current_block env\<rparr>
                 in case sync env st3 of
                      (st4, Raises e) \<Rightarrow> (st4, Raised e)
                    | (st4, Returns w) \<Rightarrow>
                        (case telemetry cfg env st4 of
                           (st5, Raises e) \<Rightarrow> (st5, Raised e)
                         | (st5, Returns u) \<Rightarrow> end_of_pass env st5)))
      else end_of_pass env st)"

text \<open>
  The loop over the passes the environment provides. When the list is used up the
  loop is still iterating.
\<close>

datatype loop_end = StillLooping | LoopBroken | LoopRaised exc

fun while_loop :: "int \<Rightarrow> config \<Rightarrow> tick_env list \<Rightarrow> validator \<Rightarrow> validator \<times> loop_end" where
  "while_loop QUERY_RATE cfg [] st = (st, StillLooping)"
| "while_loop QUERY_RATE cfg (env # envs) st =
     (case tick QUERY_RATE cfg env st of
        (st1, Continue) \<Rightarrow> while_loop QUERY_RATE cfg envs st1
      | (st1, Break) \<Rightarrow> (st1, LoopBroken)
      | (st1, Raised e) \<Rightarrow> (st1, LoopRaised e))"

text \<open>
  \<^verbatim>\<open>run\<close> (lines 133 to 235): the first \<^verbatim>\<open>self.sync()\<close> stands before the \<^verbatim>\<open>try\<close>; the
  \<^verbatim>\<open>try\<close> encloses the whole \<^verbatim>\<open>while\<close> loop. A keyboard interrupt ends the process
  (the axon it stops first is not part of the state); any
  other exception is logged and \<^verbatim>\<open>run\<close> returns.
\<close>

datatype run_end = Running | Returned | ProcessExit | Uncaught exc

definition run ::
  "int \<Rightarrow> config \<Rightarrow> (validator \<Rightarrow> validator \<times> outcome) \<Rightarrow> tick_env list \<Rightarrow> validator
     \<Rightarrow> validator \<times> run_end" where
  "run QUERY_RATE cfg first_sync envs st =
     (case first_sync st of
        (st0, Raises e) \<Rightarrow> (st0, Uncaught e)
      | (st0, Returns v) \<Rightarrow>
          (case while_loop QUERY_RATE cfg envs (log_msg Info ''Validator starting at block'' st0) of
             (st1, StillLooping) \<Rightarrow> (st1, Running)
           | (st1, LoopBroken) \<Rightarrow> (st1, Returned)
           | (st1, LoopRaised KeyboardInterrupt) \<Rightarrow>
               (log_msg Success ''Validator killed by keyboard interrupt.'' st1, ProcessExit)
           | (st1, LoopRaised e) \<Rightarrow>
               (log_msg Debug ''traceback'' (log_msg Error ''Error during validation'' st1),
                Returned)))"

section \<open>Example values\<close>

text \<open>Concrete registries, states and configurations at which the theorems are evaluated.\<close>

definition example_axon :: "string \<Rightarrow> axon" where
  "example_axon h = \<lparr>axon_hotkey = h, axon_endpoint = ''axon of '' @ h\<rparr>"

definition example_validator :: "string list \<Rightarrow> fp list \<Rightarrow> validator" where
  "example_validator hs sc =
     \<lparr>step = 0, scores = sc, hotkeys = hs, last_query_block = 0,
      metagraph = map example_axon hs, should_exit = False, wandb_run_log_count = 0, logs = []\<rparr>"

definition example_config :: "rat \<Rightarrow> nat \<Rightarrow> config" where
  "example_config alpha k =
     \<lparr>moving_average_alpha = alpha, num_concurrent_forwards = k, organic = False,
      wandb_off = True, full_path = ''/validator''\<rparr>"

text \<open>
  A sub-cycle that raises, a sub-cycle that scores one batch, and a pass of the loop
  whose \<^verbatim>\<open>sync\<close> and telemetry do nothing.
\<close>

definition failing_subcycle :: "exc \<Rightarrow> subcycle" where
  "failing_subcycle e st = (st, Raises e)"

definition scoring_subcycle :: "arith \<Rightarrow> config \<Rightarrow> fp list \<Rightarrow> int list \<Rightarrow> subcycle" where
  "scoring_subcycle ar cfg rewards uids st = update_scores ar cfg rewards uids st"

definition example_env :: "int \<Rightarrow> (nat \<Rightarrow> subcycle) \<Rightarrow> tick_env" where
  "example_env b fw =
     \<lparr>current_block = b, forward = fw, sync = (\<lambda>st. (st, Returns PyNone)),
      wandb_log = Returns PyNone, should_reinit_wandb = False, reinit_wandb = Returns PyNone,
      stop_requested = False\<rparr>"

section \<open>Auxiliary lemmas\<close>

lemmas example_defs = example_validator_def example_axon_def example_config_def

lemma log_msg_fields [simp]:
  "step (log_msg l m st) = step st"
  "scores (log_msg l m st) = scores st"
  "hotkeys (log_msg l m st) = hotkeys st"
  "last_query_block (log_msg l m st) = last_query_block st"
  "metagraph (log_msg l m st) = metagraph st"
  "should_exit (log_msg l m st) = should_exit st"
  "wandb_run_log_count (log_msg l m st) = wandb_run_log_count st"
  "logs (log_msg l m st) = logs st @ [(l, m)]"
  by (simp_all add: log_msg_def)

subsection \<open>The replacement loop of resync_metagraph\<close>

lemma zero_replaced_length: "length (fst (zero_replaced uid hs new sc)) = length sc"
  by (induction hs arbitrary: uid sc) auto

lemma zero_replaced_below: "i < uid \<Longrightarrow> fst (zero_replaced uid hs new sc) ! i = sc ! i"
  by (induction hs arbitrary: uid sc) auto

lemma zero_replaced_zero:
  "uid \<le> s \<Longrightarrow> s < uid + length hs \<Longrightarrow> s < length new \<Longrightarrow> s < length sc
   \<Longrightarrow> hs ! (s - uid) \<noteq> new ! s \<Longrightarrow> fst (zero_replaced uid hs new sc) ! s = Fin 0"
proof (induction hs arbitrary: uid sc)
  case Nil
  then show ?case by simp
next
  case (Cons h hs)
  show ?case
  proof (cases "s = uid")
    case True
    with Cons.prems show ?thesis
      by (simp add: zero_replaced_below)
  next
    case False
    with Cons.prems have lt: "Suc uid \<le> s" by simp
    from lt Cons.prems have nth: "hs ! (s - Suc uid) \<noteq> new ! s"
      by (simp add: nth_Cons' Suc_diff_le split: if_splits)
    from lt Cons.prems have b: "s < Suc uid + length hs" by simp
    have ih1: "fst (zero_replaced (Suc uid) hs new (sc[uid := Fin 0])) ! s = Fin 0"
      using Cons.IH [OF lt b Cons.prems(3) _ nth, of "sc[uid := Fin 0]"] Cons.prems(4) by simp
    have ih2: "fst (zero_replaced (Suc uid) hs new sc) ! s = Fin 0"
      using Cons.IH [OF lt b Cons.prems(3) Cons.prems(4) nth] .
    from lt Cons.prems ih1 ih2 show ?thesis by auto
  qed
qed


lemma zero_replaced_same:
  "zero_replaced uid (drop uid new) new sc = (sc, None)"
proof (induction "drop uid new" arbitrary: uid)
  case Nil
  then show ?case by simp
next
  case (Cons h hs)
  from Cons.hyps(2) have lt: "uid < length new"
    by (metis drop_eq_Nil list.distinct(1) not_le)
  from Cons.hyps(2) have h: "h = new ! uid" and hs: "hs = drop (Suc uid) new"
    using lt by (simp_all add: Cons_nth_drop_Suc [symmetric])
  from Cons.hyps(1) [OF hs] show ?case
    using lt h hs Cons.hyps(2) [symmetric] by simp
qed

subsection \<open>scatter and the moving average\<close>

lemma scatter_loop_length [simp]: "length (scatter_loop self ps) = length self"
  by (induction ps arbitrary: self) auto












subsection \<open>Normalisation in exact arithmetic\<close>




subsection \<open>Frame of the telemetry and of the stop check\<close>




subsection \<open>The stored snapshot and the metagraph\<close>

text \<open>
  \<^verbatim>\<open>__init__\<close> stores the hotkeys of the metagraph, and a resync that returns keeps the
  stored snapshot equal to the hotkeys of the metagraph. In such a state a replaced
  hotkey or a longer registry means that the axons changed, so the early return of
  \<^verbatim>\<open>resync_metagraph\<close> is not taken. \<^verbatim>\<open>load_state\<close> restores the snapshot of an earlier
  run and does not establish this.
\<close>

lemma snapshot_in_step_replaced:
  assumes "hotkeys st = metagraph_hotkeys (metagraph st)" and "s < length (hotkeys st)"
    and "hotkeys st ! s \<noteq> axon_hotkey (synced ! s)"
  shows "metagraph st \<noteq> synced"
  using assms by (auto simp: metagraph_hotkeys_def)

lemma snapshot_in_step_grown:
  assumes "hotkeys st = metagraph_hotkeys (metagraph st)" and "length (hotkeys st) < length synced"
  shows "metagraph st \<noteq> synced"
  using assms by (auto simp: metagraph_hotkeys_def)

lemma resync_keeps_snapshot_in_step:
  assumes "hotkeys st = metagraph_hotkeys (metagraph st)"
    and "snd (resync_metagraph synced st) = Returns PyNone"
  shows "hotkeys (fst (resync_metagraph synced st))
           = metagraph_hotkeys (metagraph (fst (resync_metagraph synced st)))"
proof (cases "metagraph st = synced")
  case True
  with assms(1) show ?thesis
    by (simp add: resync_metagraph_def Let_def)
next
  case False
  obtain sc r where z: "zero_replaced 0 (hotkeys st) (metagraph_hotkeys synced) (scores st) = (sc, r)"
    by (cases "zero_replaced 0 (hotkeys st) (metagraph_hotkeys synced) (scores st)")
  show ?thesis
  proof (cases r)
    case None
    with False z show ?thesis
      by (simp add: resync_metagraph_def Let_def)
  next
    case (Some e)
    with False z assms(2) show ?thesis
      by (simp add: resync_metagraph_def Let_def)
  qed
qed

lemma resync_last_query_block:
  "last_query_block (fst (resync_metagraph synced st)) = last_query_block st"
proof -
  obtain sc r where z: "zero_replaced 0 (hotkeys st) (metagraph_hotkeys synced) (scores st) = (sc, r)"
    by (cases "zero_replaced 0 (hotkeys st) (metagraph_hotkeys synced) (scores st)")
  show ?thesis
    by (cases r) (simp_all add: resync_metagraph_def Let_def z)
qed

subsection \<open>The loop at a pass that raises\<close>

text \<open>
  An exception that leaves a pass leaves the loop, whatever passes would follow; unless
  it is a keyboard interrupt, \<^verbatim>\<open>run\<close> logs it and returns.
\<close>

lemma while_loop_ends_at_raise:
  "tick QUERY_RATE cfg env st = (st1, Raised e)
   \<Longrightarrow> while_loop QUERY_RATE cfg (env # envs) st = (st1, LoopRaised e)"
  by simp

lemma run_returns_on_error:
  "first_sync st = (st0, Returns v)
   \<Longrightarrow> tick QUERY_RATE cfg env (log_msg Info ''Validator starting at block'' st0) = (st1, Raised e)
   \<Longrightarrow> e \<noteq> KeyboardInterrupt
   \<Longrightarrow> run QUERY_RATE cfg first_sync (env # envs) st =
         (log_msg Debug ''traceback'' (log_msg Error ''Error during validation'' st1), Returned)"
  by (cases e) (simp_all add: run_def)

section \<open>C1: errors inside a pass of the loop\<close>

text \<open>
  C1 says that an error raised inside one pass is caught at the loop boundary and logged,
  and that the loop goes on with the next passes. In \<^verbatim>\<open>run\<close> the \<^verbatim>\<open>try\<close> encloses the
  whole \<^verbatim>\<open>while\<close> loop: with a first pass whose probe raises and two passes that would
  succeed, the error is logged, \<^verbatim>\<open>run\<close> returns, the step counter is still 0 and the two
  later passes have not scored anything.
\<close>

theorem run_ends_at_failed_pass:
  "snd (run 2 (example_config (1 / 2) 1) (\<lambda>st. (st, Returns PyNone))
         [example_env 10 (\<lambda>j. failing_subcycle (OtherError ''probe failed'')),
          example_env 20 (\<lambda>j. scoring_subcycle Exact (example_config (1 / 2) 1) [Fin 1] [0]),
          example_env 30 (\<lambda>j. scoring_subcycle Exact (example_config (1 / 2) 1) [Fin 1] [0])]
         (example_validator [''A''] [Fin 0])) = Returned
   \<and> step (fst (run 2 (example_config (1 / 2) 1) (\<lambda>st. (st, Returns PyNone))
         [example_env 10 (\<lambda>j. failing_subcycle (OtherError ''probe failed'')),
          example_env 20 (\<lambda>j. scoring_subcycle Exact (example_config (1 / 2) 1) [Fin 1] [0]),
          example_env 30 (\<lambda>j. scoring_subcycle Exact (example_config (1 / 2) 1) [Fin 1] [0])]
         (example_validator [''A''] [Fin 0]))) = 0
   \<and> scores (fst (run 2 (example_config (1 / 2) 1) (\<lambda>st. (st, Returns PyNone))
         [example_env 10 (\<lambda>j. failing_subcycle (OtherError ''probe failed'')),
          example_env 20 (\<lambda>j. scoring_subcycle Exact (example_config (1 / 2) 1) [Fin 1] [0]),
          example_env 30 (\<lambda>j. scoring_subcycle Exact (example_config (1 / 2) 1) [Fin 1] [0])]
         (example_validator [''A''] [Fin 0]))) = [Fin 0]
   \<and> logs (fst (run 2 (example_config (1 / 2) 1) (\<lambda>st. (st, Returns PyNone))
         [example_env 10 (\<lambda>j. failing_subcycle (OtherError ''probe failed'')),
          example_env 20 (\<lambda>j. scoring_subcycle Exact (example_config (1 / 2) 1) [Fin 1] [0]),
          example_env 30 (\<lambda>j. scoring_subcycle Exact (example_config (1 / 2) 1) [Fin 1] [0])]
         (example_validator [''A''] [Fin 0])))
       = [(Info, ''Validator starting at block''), (Info, ''step block''),
          (Error, ''Error during validation''), (Debug, ''traceback'')]"
  by code_simp

section \<open>C2: a failing probe sub-cycle\<close>



section \<open>C3: non-finite rewards\<close>




section \<open>C4: normalisation of the scores\<close>





text \<open>
  Two more evaluations of the normalisation, in binary32: a NaN score makes every weight
  NaN, and a vector whose sum is below \<open>eps\<close> is divided by \<open>eps\<close>, not by its sum.
\<close>

lemma normalize_nan_example:
  "normalize_p1 IEEE [NaN, Fin 1] = [NaN, NaN]"
  by code_simp

lemma normalize_tiny_example:
  "normalize_p1 IEEE [Fin (1 / 2 ^ 50)] = [Fin (15258789 / 17179869184)]"
  by code_simp

section \<open>C5: the moving average\<close>




section \<open>C6: a replaced hotkey loses its score\<close>

text \<open>
  Claim C6 says that every resync zeroes the score of a slot whose hotkey differs from
  the stored snapshot. The code returns early when the synced axons equal those of the
  metagraph held before the sync, whatever the stored snapshot says: with the stored
  hotkeys \<open>[A, B]\<close> and a metagraph that already holds \<open>[A, C]\<close>, syncing \<open>[A, C]\<close> leaves
  the score of slot 1 as it was.
\<close>

theorem resync_stale_snapshot_example:
  "hotkeys ((example_validator [''A'', ''B''] [Fin 1, Fin 1])
              \<lparr>metagraph := map example_axon [''A'', ''C'']\<rparr>) ! 1 = ''B''
   \<and> axon_hotkey (map example_axon [''A'', ''C''] ! 1) = ''C''
   \<and> scores (fst (resync_metagraph (map example_axon [''A'', ''C''])
        ((example_validator [''A'', ''B''] [Fin 1, Fin 1])
           \<lparr>metagraph := map example_axon [''A'', ''C'']\<rparr>))) ! 1 = Fin 1"
  by (simp add: resync_metagraph_def example_defs log_msg_def)

text \<open>
  C6, as amended. When the synced axons differ from those the metagraph held before the
  sync, and slot \<open>s\<close> is a slot of the stored snapshot, of the synced registry and of
  the score vector, and its stored hotkey differs from the synced one, then the score of
  slot \<open>s\<close> is 0 after the resync (also when the resync raises at a later slot).
\<close>

theorem resync_zeroes_replaced:
  assumes "metagraph st \<noteq> synced" and "s < length (hotkeys st)" and "s < length synced"
    and "s < length (scores st)" and "hotkeys st ! s \<noteq> axon_hotkey (synced ! s)"
  shows "scores (fst (resync_metagraph synced st)) ! s = Fin 0"
proof -
  let ?new = "metagraph_hotkeys synced"
  let ?z = "zero_replaced 0 (hotkeys st) ?new (scores st)"
  have z: "fst ?z ! s = Fin 0"
    using assms by (intro zero_replaced_zero) (simp_all add: metagraph_hotkeys_def)
  have len: "length (fst ?z) = length (scores st)"
    by (rule zero_replaced_length)
  show ?thesis
    using assms z len
    by (cases ?z) (auto simp: resync_metagraph_def Let_def nth_append split: option.splits)
qed

theorem resync_zeroes_replaced_witness:
  "metagraph (example_validator [''A'', ''B''] [Fin 1, Fin 1]) \<noteq> map example_axon [''A'', ''C'']
   \<and> hotkeys (example_validator [''A'', ''B''] [Fin 1, Fin 1]) ! 1
        \<noteq> axon_hotkey (map example_axon [''A'', ''C''] ! 1)
   \<and> scores (fst (resync_metagraph (map example_axon [''A'', ''C''])
        (example_validator [''A'', ''B''] [Fin 1, Fin 1]))) ! 1 = Fin 0"
proof -
  let ?st = "example_validator [''A'', ''B''] [Fin 1, Fin 1]"
  let ?synced = "map example_axon [''A'', ''C'']"
  have h1: "metagraph ?st \<noteq> ?synced" by (simp add: example_defs)
  have h2: "1 < length (hotkeys ?st)" by (simp add: example_defs)
  have h3: "1 < length ?synced" by simp
  have h4: "1 < length (scores ?st)" by (simp add: example_defs)
  have h5: "hotkeys ?st ! 1 \<noteq> axon_hotkey (?synced ! 1)" by (simp add: example_defs)
  show ?thesis
    using h1 h5 resync_zeroes_replaced [OF h1 h2 h3 h4 h5] by simp
qed

section \<open>C7: growth of the registry\<close>




section \<open>C8: resync with an unchanged snapshot\<close>

text \<open>
  Claim C8 says that a resync with an identical snapshot returns false. The procedure
  has no result: it returns \<^verbatim>\<open>None\<close> on every path.
\<close>

theorem resync_returns_none_example:
  "snd (resync_metagraph (map example_axon [''A'', ''B''])
          (example_validator [''A'', ''B''] [Fin 1, Fin 2])) \<noteq> Returns (PyBool False)"
  by (simp add: resync_metagraph_def example_defs log_msg_def)

text \<open>
  C8, as amended. When the hotkeys of the synced registry are the stored snapshot, the
  resync returns \<^verbatim>\<open>None\<close> without raising and leaves the score vector and the stored
  snapshot unchanged.
\<close>

theorem resync_same_snapshot:
  assumes "hotkeys st = metagraph_hotkeys synced"
  shows "snd (resync_metagraph synced st) = Returns PyNone
         \<and> scores (fst (resync_metagraph synced st)) = scores st
         \<and> hotkeys (fst (resync_metagraph synced st)) = hotkeys st"
  using assms zero_replaced_same [of 0 "metagraph_hotkeys synced" "scores st"]
  by (simp add: resync_metagraph_def Let_def)

theorem resync_same_snapshot_witness:
  "hotkeys (example_validator [''A'', ''B''] [Fin 1, Fin 2])
     = metagraph_hotkeys (map example_axon [''A'', ''B''])
   \<and> snd (resync_metagraph (map example_axon [''A'', ''B''])
            (example_validator [''A'', ''B''] [Fin 1, Fin 2])) = Returns PyNone
   \<and> scores (fst (resync_metagraph (map example_axon [''A'', ''B''])
            (example_validator [''A'', ''B''] [Fin 1, Fin 2]))) = [Fin 1, Fin 2]"
proof -
  let ?st = "example_validator [''A'', ''B''] [Fin 1, Fin 2]"
  let ?synced = "map example_axon [''A'', ''B'']"
  have h: "hotkeys ?st = metagraph_hotkeys ?synced"
    by (simp add: example_defs metagraph_hotkeys_def)
  have s: "scores ?st = [Fin 1, Fin 2]"
    by (simp add: example_validator_def)
  from resync_same_snapshot [OF h]
  have "snd (resync_metagraph ?synced ?st) = Returns PyNone"
    and "scores (fst (resync_metagraph ?synced ?st)) = scores ?st"
    by blast+
  with h s show ?thesis by metis
qed

section \<open>C9: the block gate of the loop\<close>





section \<open>C10: saving and loading the state\<close>


end
